theory Spec2Isabelle
  imports Main
begin

section \<open>Levels (package level)\<close>

text \<open>
  Modelled from the spec: the declaration of \<open>level.LogLevel\<close> and of its six constants
  is absent from the sources. The spec gives an ordered enumeration with Fatal the lowest
  ordinal and Trace the highest; the code compares levels with the integer order
  (\<open>outLevel > l.level\<close>, \<open>lv <= level.Error\<close>) and uses a level as a map key, so a
  level is its ordinal.
\<close>

type_synonym LogLevel = int

definition Fatal :: LogLevel where "Fatal = 0"
definition Error :: LogLevel where "Error = 1"
definition Warn :: LogLevel where "Warn = 2"
definition Info :: LogLevel where "Info = 3"
definition Debug :: LogLevel where "Debug = 4"
definition Trace :: LogLevel where "Trace = 5"

lemmas level_defs = Fatal_def Error_def Warn_def Info_def Debug_def Trace_def

section \<open>Options (package logkOption)\<close>

text \<open>
  A value of Go's \<open>interface{}\<close>, as far as the getters and the printer look at it: the
  nil interface, a \<open>string\<close>, an \<open>int64\<close>, a \<open>time.Time\<close> (its instant), and a value
  whose dynamic type implements \<open>error\<close> (represented by the text its \<open>Error()\<close> method
  returns).
\<close>

datatype any = VNil | VString string | VInt64 int | VTime int | VError string

text \<open>
  Modelled from the spec: package logkContext is absent from the sources. A
  \<open>context.Context\<close> is represented by what the printer reads from it: it carries at
  most one request identifier, and \<open>GetRequestId\<close> retrieves it, the empty string
  standing for none (and for a nil context).
\<close>

datatype Context = Ctx "string option"

fun GetRequestId :: "Context option \<Rightarrow> string" where
  "GetRequestId None = []"
| "GetRequestId (Some (Ctx None)) = []"
| "GetRequestId (Some (Ctx (Some r))) = r"

text \<open>
  Modelled from the spec: the declaration of the \<open>Options\<close> struct is absent from the
  sources. Its fields are those the sources read: \<open>o.Level\<close>, \<open>o.Context\<close>,
  \<open>o.FmtArgs\<close>, \<open>o.Metadata\<close> and \<open>o.Values\<close>. A Go map read at a missing key gives
  the nil interface; here the lookup gives \<open>None\<close>.
\<close>

record Options =
  Level :: LogLevel
  Context :: "Context option"
  FmtArgs :: "any list"
  Metadata :: "(string \<times> any) list"
  Values :: "string \<rightharpoonup> any"

text \<open>The getters of src/unnamed/part_000: a type assertion on the stored value.\<close>

definition GetString :: "Options \<Rightarrow> string \<Rightarrow> string \<times> bool" where
  "GetString o' k = (case Values o' k of Some (VString s) \<Rightarrow> (s, True) | _ \<Rightarrow> ([], False))"

definition GetInt64 :: "Options \<Rightarrow> string \<Rightarrow> int \<times> bool" where
  "GetInt64 o' k = (case Values o' k of Some (VInt64 i) \<Rightarrow> (i, True) | _ \<Rightarrow> (0, False))"

definition GetTime :: "Options \<Rightarrow> string \<Rightarrow> int \<times> bool" where
  "GetTime o' k = (case Values o' k of Some (VTime t) \<Rightarrow> (t, True) | _ \<Rightarrow> (0, False))"

text \<open>\<open>GetError\<close> returns the error, or nil (\<open>None\<close>) when the assertion fails.\<close>

definition GetError :: "Options \<Rightarrow> string \<Rightarrow> string option" where
  "GetError o' k = (case Values o' k of Some (VError e) \<Rightarrow> Some e | _ \<Rightarrow> None)"

text \<open>
  Modelled from the spec: the reserved keys, the setters, \<open>Evaluate\<close> and
  \<open>NewFormatOptions\<close> are absent from the sources. A setter is a function on the
  options; \<open>Evaluate\<close> starts from the zero options and applies the setters in the
  order given. \<open>NewStdLogger\<close> and \<open>NewChild\<close> read the namespace with \<open>GetString\<close>
  under \<open>NamespaceKey\<close> and the printer reads the error with \<open>GetError\<close> under
  \<open>ErrorKey\<close>, so the two setters store into \<open>Values\<close>; the texts of the two keys are
  not given, and nothing below depends on them. The setters \<open>Level\<close> and \<open>Error\<close> are
  named \<open>LevelOpt\<close> and \<open>ErrorOpt\<close> here, next to the field \<open>Level\<close> and the level
  \<open>Error\<close>. The formatted methods pass the result of \<open>NewFormatOptions\<close> to \<open>print\<close>
  as the options, so it gives options that carry the operands and nothing else.
\<close>

type_synonym SetterFunc = "Options \<Rightarrow> Options"

definition NamespaceKey :: string where "NamespaceKey = ''namespace''"
definition ErrorKey :: string where "ErrorKey = ''error''"

definition zeroOptions :: Options where
  "zeroOptions = \<lparr>Level = 0, Context = None, FmtArgs = [], Metadata = [], Values = Map.empty\<rparr>"

definition Evaluate :: "SetterFunc list \<Rightarrow> Options" where
  "Evaluate args = foldl (\<lambda>o' f. f o') zeroOptions args"

definition LevelOpt :: "LogLevel \<Rightarrow> SetterFunc" where
  "LevelOpt lv = (\<lambda>o'. o'\<lparr>Level := lv\<rparr>)"

definition WithNamespace :: "string \<Rightarrow> SetterFunc" where
  "WithNamespace n = (\<lambda>o'. o'\<lparr>Values := (Values o')(NamespaceKey \<mapsto> VString n)\<rparr>)"

definition WithContext :: "Context option \<Rightarrow> SetterFunc" where
  "WithContext c = (\<lambda>o'. o'\<lparr>Context := c\<rparr>)"

definition ErrorOpt :: "any \<Rightarrow> SetterFunc" where
  "ErrorOpt e = (\<lambda>o'. o'\<lparr>Values := (Values o')(ErrorKey \<mapsto> e)\<rparr>)"

definition NewFormatOptions :: "any list \<Rightarrow> Options" where
  "NewFormatOptions args = zeroOptions\<lparr>FmtArgs := args\<rparr>"

section \<open>The printer capability and the standard logger (stdlogger.go)\<close>

text \<open>
  Go's \<open>log.Logger\<close> as \<open>stdLog.New(out, "", flag)\<close> builds it: the stream it writes
  to, its prefix and its flags. \<open>LstdFlags\<close> is the standard library's
  \<open>Ldate | Ltime\<close>.
\<close>

datatype Stream = Stdout | OtherWriter nat

record log_Logger =
  lg_out :: Stream
  lg_prefix :: string
  lg_flag :: int

definition LstdFlags :: int where "LstdFlags = 3"

record stdLogPrinter =
  writer :: log_Logger

definition NewStdLogPrinter :: "Stream option \<Rightarrow> int \<Rightarrow> stdLogPrinter" where
  "NewStdLogPrinter out fl =
     (let out' = (case out of None \<Rightarrow> Stdout | Some s \<Rightarrow> s)
      in \<lparr>writer = \<lparr>lg_out = out', lg_prefix = [], lg_flag = fl\<rparr>\<rparr>)"

text \<open>
  A value of the \<open>Printer\<close> interface: the bundled printer, or some other
  implementation (identified by a tag). A nil interface is \<open>None\<close>.
\<close>

datatype Printer = StdPrinter stdLogPrinter | OtherPrinter nat

record StdLogger =
  level :: LogLevel
  printer :: "Printer option"
  namespace :: string
  ctx :: "Context option"

text \<open>The struct literal \<open>StdLogger{}\<close>.\<close>

definition zeroStdLogger :: StdLogger where
  "zeroStdLogger = \<lparr>level = 0, printer = None, namespace = [], ctx = None\<rparr>"

text \<open>
  One invocation of \<open>Printer.Print\<close>: the printer it is invoked on and its four
  arguments. The effect of the logging methods on the world is the sequence of these
  invocations; what the bundled printer writes for one of them is
  \<open>stdLogPrinter_Print\<close> below.
\<close>

record PrintCall =
  pc_printer :: Printer
  pc_namespace :: string
  pc_level :: LogLevel
  pc_msg :: string
  pc_options :: Options

datatype panic = Panic string | NilDereference

text \<open>
  \<open>StdLogger.print\<close>: the level gate, the injection of the logger's context
  (\<open>injectContext\<close>, lines 111 to 114), the call of the printer. The invocation is
  appended to the trace; calling a method of a nil interface panics.
\<close>

definition injectContext :: "StdLogger \<Rightarrow> Options \<Rightarrow> Options" where
  "injectContext l options =
     (if ctx l \<noteq> None \<and> Context options = None then options\<lparr>Context := ctx l\<rparr> else options)"

definition StdLogger_print ::
  "StdLogger \<Rightarrow> LogLevel \<Rightarrow> string \<Rightarrow> Options \<Rightarrow> PrintCall list \<Rightarrow> panic + PrintCall list" where
  "StdLogger_print l outLevel msg options tr =
     (if outLevel > level l then Inr tr
      else
        let options' = injectContext l options
        in case printer l of
             None \<Rightarrow> Inl NilDereference
           | Some p \<Rightarrow> Inr (tr @ [\<lparr>pc_printer = p, pc_namespace = namespace l,
                                    pc_level = outLevel, pc_msg = msg,
                                    pc_options = options'\<rparr>]))"

definition StdLogger_Fatal :: "StdLogger \<Rightarrow> string \<Rightarrow> SetterFunc list \<Rightarrow> PrintCall list \<Rightarrow> panic + PrintCall list" where
  "StdLogger_Fatal l msg args = StdLogger_print l Fatal msg (Evaluate args)"

definition StdLogger_Fatalf :: "StdLogger \<Rightarrow> string \<Rightarrow> any list \<Rightarrow> PrintCall list \<Rightarrow> panic + PrintCall list" where
  "StdLogger_Fatalf l format args = StdLogger_print l Fatal format (NewFormatOptions args)"

definition StdLogger_Error :: "StdLogger \<Rightarrow> string \<Rightarrow> SetterFunc list \<Rightarrow> PrintCall list \<Rightarrow> panic + PrintCall list" where
  "StdLogger_Error l msg args = StdLogger_print l Error msg (Evaluate args)"

definition StdLogger_Errorf :: "StdLogger \<Rightarrow> string \<Rightarrow> any list \<Rightarrow> PrintCall list \<Rightarrow> panic + PrintCall list" where
  "StdLogger_Errorf l format args = StdLogger_print l Error format (NewFormatOptions args)"

definition StdLogger_Warn :: "StdLogger \<Rightarrow> string \<Rightarrow> SetterFunc list \<Rightarrow> PrintCall list \<Rightarrow> panic + PrintCall list" where
  "StdLogger_Warn l msg args = StdLogger_print l Warn msg (Evaluate args)"

definition StdLogger_Warnf :: "StdLogger \<Rightarrow> string \<Rightarrow> any list \<Rightarrow> PrintCall list \<Rightarrow> panic + PrintCall list" where
  "StdLogger_Warnf l format args = StdLogger_print l Warn format (NewFormatOptions args)"

definition StdLogger_Info :: "StdLogger \<Rightarrow> string \<Rightarrow> SetterFunc list \<Rightarrow> PrintCall list \<Rightarrow> panic + PrintCall list" where
  "StdLogger_Info l msg args = StdLogger_print l Info msg (Evaluate args)"

definition StdLogger_Infof :: "StdLogger \<Rightarrow> string \<Rightarrow> any list \<Rightarrow> PrintCall list \<Rightarrow> panic + PrintCall list" where
  "StdLogger_Infof l format args = StdLogger_print l Info format (NewFormatOptions args)"

definition StdLogger_Debug :: "StdLogger \<Rightarrow> string \<Rightarrow> SetterFunc list \<Rightarrow> PrintCall list \<Rightarrow> panic + PrintCall list" where
  "StdLogger_Debug l msg args = StdLogger_print l Debug msg (Evaluate args)"

definition StdLogger_Debugf :: "StdLogger \<Rightarrow> string \<Rightarrow> any list \<Rightarrow> PrintCall list \<Rightarrow> panic + PrintCall list" where
  "StdLogger_Debugf l format args = StdLogger_print l Debug format (NewFormatOptions args)"

definition StdLogger_Trace :: "StdLogger \<Rightarrow> string \<Rightarrow> SetterFunc list \<Rightarrow> PrintCall list \<Rightarrow> panic + PrintCall list" where
  "StdLogger_Trace l msg args = StdLogger_print l Trace msg (Evaluate args)"

definition StdLogger_Tracef :: "StdLogger \<Rightarrow> string \<Rightarrow> any list \<Rightarrow> PrintCall list \<Rightarrow> panic + PrintCall list" where
  "StdLogger_Tracef l format args = StdLogger_print l Trace format (NewFormatOptions args)"

lemmas method_defs =
  StdLogger_Fatal_def StdLogger_Fatalf_def StdLogger_Error_def StdLogger_Errorf_def
  StdLogger_Warn_def StdLogger_Warnf_def StdLogger_Info_def StdLogger_Infof_def
  StdLogger_Debug_def StdLogger_Debugf_def StdLogger_Trace_def StdLogger_Tracef_def

text \<open>
  \<open>NewStdLogger\<close> builds the struct (the caller receives its address); a nil printer
  is replaced by the bundled printer on standard output.
\<close>

definition NewStdLogger :: "Printer option \<Rightarrow> SetterFunc list \<Rightarrow> StdLogger" where
  "NewStdLogger p args =
     (let o' = Evaluate args;
          l1 = zeroStdLogger\<lparr>level := Level o'\<rparr>;
          ns = fst (GetString o' NamespaceKey);
          l2 = (if ns \<noteq> [] then l1\<lparr>namespace := ns\<rparr> else l1);
          l3 = (if Context o' \<noteq> None then l2\<lparr>ctx := Context o'\<rparr> else l2)
      in case p of
           None \<Rightarrow> l3\<lparr>printer := Some (StdPrinter (NewStdLogPrinter (Some Stdout) LstdFlags))\<rparr>
         | Some q \<Rightarrow> l3\<lparr>printer := Some q\<rparr>)"

text \<open>
  \<open>StdLogger.NewChild\<close>. The setters are evaluated here and again inside
  \<open>NewStdLogger\<close>; as functions on the options they give the same result both times.
\<close>

definition NewChild :: "StdLogger \<Rightarrow> SetterFunc list \<Rightarrow> StdLogger" where
  "NewChild l args =
     (let options = Evaluate args;
          ns = fst (GetString options NamespaceKey);
          args1 = (if ns = [] \<and> namespace l \<noteq> [] then args @ [WithNamespace (namespace l)]
                   else args);
          args2 = args1 @ [LevelOpt (level l)];
          cl = NewStdLogger (printer l) args2
      in if Context options \<noteq> None then cl\<lparr>ctx := Context options\<rparr> else cl)"

section \<open>Formatting (the standard library's fmt and log, as the printer uses them)\<close>

text \<open>
  \<open>fmt.Sprintf\<close> on the fragment of formats made of literal text and the directives
  \<open>%%\<close>, \<open>%v\<close>, \<open>%s\<close> and \<open>%d\<close>, with the standard library's error forms for a
  missing operand, an operand of the wrong type, a \<open>%\<close> that ends the format and
  operands left over. \<open>None\<close> stands for a format or an operand outside this fragment
  (flags, widths, other verbs, the text of a \<open>time.Time\<close>, the type name of an error
  value): nothing is claimed about those.
\<close>

abbreviation newline :: char where "newline \<equiv> CHR 0x0A"

fun digits :: "nat \<Rightarrow> string" where
  "digits n = (if n < 10 then [char_of (48 + n)] else digits (n div 10) @ [char_of (48 + n mod 10)])"

declare digits.simps [simp del]

definition decimal :: "int \<Rightarrow> string" where
  "decimal i = (if i < 0 then CHR ''-'' # digits (nat (- i)) else digits (nat i))"

text \<open>The \<open>type=value\<close> text of an operand, as the error forms show it.\<close>

fun typed :: "any \<Rightarrow> string option" where
  "typed VNil = Some ''<nil>''"
| "typed (VString s) = Some (''string='' @ s)"
| "typed (VInt64 i) = Some (''int64='' @ decimal i)"
| "typed (VTime t) = None"
| "typed (VError e) = None"

definition badVerb :: "char \<Rightarrow> any \<Rightarrow> string option" where
  "badVerb verb arg = map_option (\<lambda>t. ''%!'' @ [verb] @ ''('' @ t @ '')'') (typed arg)"

text \<open>
  One operand under a verb: \<open>%v\<close> and \<open>%s\<close> of a string, \<open>%v\<close> and \<open>%d\<close> of an
  integer, \<open>%v\<close> and \<open>%s\<close> of an error (the text of \<open>Error()\<close>), \<open>%v\<close> of nil; the
  other pairings among \<open>v\<close>, \<open>s\<close>, \<open>d\<close> are the wrong-type form.
\<close>

fun printArg :: "any \<Rightarrow> char \<Rightarrow> string option" where
  "printArg VNil verb =
     (if verb = CHR ''v'' then Some ''<nil>''
      else if verb = CHR ''s'' \<or> verb = CHR ''d'' then badVerb verb VNil
      else None)"
| "printArg (VString s) verb =
     (if verb = CHR ''v'' \<or> verb = CHR ''s'' then Some s
      else if verb = CHR ''d'' then badVerb verb (VString s)
      else None)"
| "printArg (VInt64 i) verb =
     (if verb = CHR ''v'' \<or> verb = CHR ''d'' then Some (decimal i)
      else if verb = CHR ''s'' then badVerb verb (VInt64 i)
      else None)"
| "printArg (VError e) verb =
     (if verb = CHR ''v'' \<or> verb = CHR ''s'' then Some e else None)"
| "printArg (VTime t) verb = None"

definition emit :: "string \<Rightarrow> (string \<times> any list) option \<Rightarrow> (string \<times> any list) option" where
  "emit t = map_option (\<lambda>(b, r). (t @ b, r))"

text \<open>
  The scan of the format: the text produced and the operands not consumed.
\<close>

fun doPrintf :: "string \<Rightarrow> any list \<Rightarrow> (string \<times> any list) option" where
  "doPrintf [] a = Some ([], a)"
| "doPrintf (c # cs) a =
     (if c \<noteq> CHR ''%'' then emit [c] (doPrintf cs a)
      else case cs of
             [] \<Rightarrow> Some (''%!(NOVERB)'', a)
           | verb # rest \<Rightarrow>
               if verb = CHR ''%'' then emit ''%'' (doPrintf rest a)
               else if verb = CHR ''v'' \<or> verb = CHR ''s'' \<or> verb = CHR ''d'' then
                 (case a of
                    [] \<Rightarrow> emit (''%!'' @ [verb] @ ''(MISSING)'') (doPrintf rest [])
                  | x # xs \<Rightarrow>
                      (case printArg x verb of
                         None \<Rightarrow> None
                       | Some t \<Rightarrow> emit t (doPrintf rest xs)))
               else None)"

fun extras :: "any list \<Rightarrow> string option" where
  "extras [] = Some []"
| "extras [x] = typed x"
| "extras (x # y # ys) =
     (case typed x of None \<Rightarrow> None
      | Some t \<Rightarrow> map_option (\<lambda>u. t @ '', '' @ u) (extras (y # ys)))"

definition Sprintf :: "string \<Rightarrow> any list \<Rightarrow> string option" where
  "Sprintf format a =
     (case doPrintf format a of
        None \<Rightarrow> None
      | Some (b, r) \<Rightarrow>
          if r = [] then Some b
          else map_option (\<lambda>e. b @ ''%!(EXTRA '' @ e @ '')'') (extras r))"


text \<open>
  \<open>log.Logger.Printf\<close>: the formatted text goes to \<open>Output\<close>, which appends a newline
  when the text does not end with one. The writer is represented by the entries handed
  to it so far; the header that \<open>Output\<close> puts before an entry (date and time, as the
  flags ask) is not part of an entry.
\<close>

definition Output :: "string \<Rightarrow> string" where
  "Output s = (if s = [] \<or> last s \<noteq> newline then s @ [newline] else s)"

text \<open>
  The formatter is a parameter of the printer: \<open>fmt.Sprintf\<close> itself, or the
  fragment \<open>Sprintf\<close> above (\<open>None\<close> where the formatter at hand says nothing).
\<close>

type_synonym formatter = "string \<Rightarrow> any list \<Rightarrow> string option"

definition log_Printf :: "formatter \<Rightarrow> string \<Rightarrow> any list \<Rightarrow> string list \<Rightarrow> string list option" where
  "log_Printf fm format v w = map_option (\<lambda>s. w @ [Output s]) (fm format v)"

section \<open>The bundled printer (stdlogger.go, lines 16 to 23 and 165 to 205)\<close>

definition stdLevelPrefix :: "LogLevel \<rightharpoonup> string" where
  "stdLevelPrefix = map_of
     [(Fatal, ''[FATAL] > ''), (Error, ''[ERROR] > ''), (Warn, ''[WARN]  > ''),
      (Info, ''[INFO]  > ''), (Debug, ''[DEBUG] > ''), (Trace, ''[TRACE] > '')]"

text \<open>
  \<open>stdLogPrinter.Print\<close>, block by block. Lines 168 to 174: the prefix; a level that
  is not a key of the map gives the empty string.
\<close>

definition levelPrefix :: "formatter \<Rightarrow> LogLevel \<Rightarrow> string \<Rightarrow> string option" where
  "levelPrefix fm lv ns =
     (let prefix = (case stdLevelPrefix lv of None \<Rightarrow> [] | Some s \<Rightarrow> s)
      in if ns \<noteq> [] then fm ''%s(%s) '' [VString prefix, VString ns] else Some prefix)"

text \<open>Lines 176 to 183: the message, as a format when there are operands.\<close>

definition printMessage ::
  "formatter \<Rightarrow> string \<Rightarrow> string \<Rightarrow> Options \<Rightarrow> string list \<Rightarrow> string list option" where
  "printMessage fm prefix msg options w =
     (let fmtArgs = FmtArgs options
      in if length fmtArgs > 0 then log_Printf fm (prefix @ msg @ [newline]) fmtArgs w
         else log_Printf fm (''%s%s'' @ [newline]) [VString prefix, VString msg] w)"

text \<open>Lines 185 to 188.\<close>

definition printRequestId :: "formatter \<Rightarrow> Options \<Rightarrow> string list \<Rightarrow> string list option" where
  "printRequestId fm options w =
     (let reqId = GetRequestId (Context options)
      in if reqId \<noteq> [] then log_Printf fm (''  > Request ID: %s'' @ [newline]) [VString reqId] w
         else Some w)"

text \<open>Lines 190 to 194.\<close>

definition printError :: "formatter \<Rightarrow> LogLevel \<Rightarrow> Options \<Rightarrow> string list \<Rightarrow> string list option" where
  "printError fm lv options w =
     (case GetError options ErrorKey of
        None \<Rightarrow> Some w
      | Some logErr \<Rightarrow>
          if lv \<le> Error then log_Printf fm (''  > Error: %s'' @ [newline]) [VError logErr] w
          else Some w)"

text \<open>
  Lines 196 to 204. \<open>json.Marshal\<close> is a parameter: it gives the text, or fails
  (\<open>None\<close>), and then the line is skipped.
\<close>

definition printMetadata ::
  "formatter \<Rightarrow> ((string \<times> any) list \<Rightarrow> string option) \<Rightarrow> Options \<Rightarrow> string list
     \<Rightarrow> string list option" where
  "printMetadata fm json_Marshal options w =
     (let meta = Metadata options
      in if meta \<noteq> [] then
           (case json_Marshal meta of
              None \<Rightarrow> Some w
            | Some metadata \<Rightarrow>
                log_Printf fm (''  > Metadata: %s'' @ [newline]) [VString metadata] w)
         else Some w)"

definition stdLogPrinter_Print_fmt ::
  "formatter \<Rightarrow> ((string \<times> any) list \<Rightarrow> string option) \<Rightarrow> string \<Rightarrow> LogLevel \<Rightarrow> string
     \<Rightarrow> Options \<Rightarrow> string list \<Rightarrow> string list option" where
  "stdLogPrinter_Print_fmt fm json_Marshal ns lv msg options w =
     Option.bind (levelPrefix fm lv ns) (\<lambda>prefix.
     Option.bind (printMessage fm prefix msg options w) (\<lambda>w1.
     Option.bind (printRequestId fm options w1) (\<lambda>w2.
     Option.bind (printError fm lv options w2) (\<lambda>w3.
     printMetadata fm json_Marshal options w3))))"

text \<open>The printer with the formatter of the previous section.\<close>

definition stdLogPrinter_Print ::
  "((string \<times> any) list \<Rightarrow> string option) \<Rightarrow> string \<Rightarrow> LogLevel \<Rightarrow> string \<Rightarrow> Options
     \<Rightarrow> string list \<Rightarrow> string list option" where
  "stdLogPrinter_Print json_Marshal ns lv msg options w =
     stdLogPrinter_Print_fmt Sprintf json_Marshal ns lv msg options w"

text \<open>
  What the printer relies on in its own five formats: \<open>%s\<close> of a string is the string
  and \<open>%s\<close> of an error is its message, between the literal text of the format.
\<close>

definition fmt_basic :: "formatter \<Rightarrow> bool" where
  "fmt_basic fm \<longleftrightarrow>
     (\<forall>a b. fm ''%s(%s) '' [VString a, VString b] = Some (a @ ''('' @ b @ '') '')) \<and>
     (\<forall>a b. fm (''%s%s'' @ [newline]) [VString a, VString b] = Some (a @ b @ [newline])) \<and>
     (\<forall>a. fm (''  > Request ID: %s'' @ [newline]) [VString a]
            = Some (''  > Request ID: '' @ a @ [newline])) \<and>
     (\<forall>e. fm (''  > Error: %s'' @ [newline]) [VError e] = Some (''  > Error: '' @ e @ [newline])) \<and>
     (\<forall>a. fm (''  > Metadata: %s'' @ [newline]) [VString a]
            = Some (''  > Metadata: '' @ a @ [newline]))"

text \<open>The prefix of a record: the level tag, then the namespace in parentheses.\<close>

definition prefixText :: "LogLevel \<Rightarrow> string \<Rightarrow> string" where
  "prefixText lv ns =
     (case stdLevelPrefix lv of None \<Rightarrow> [] | Some s \<Rightarrow> s) @
     (if ns \<noteq> [] then ''('' @ ns @ '') '' else [])"

text \<open>
  The entries that follow the message entry of one record: the request identifier, the
  error, the metadata, each when present.
\<close>

definition requestIdLine :: "Options \<Rightarrow> string list" where
  "requestIdLine options =
     (if GetRequestId (Context options) \<noteq> []
      then [''  > Request ID: '' @ GetRequestId (Context options) @ [newline]] else [])"

definition errorLine :: "LogLevel \<Rightarrow> Options \<Rightarrow> string list" where
  "errorLine lv options =
     (case GetError options ErrorKey of
        None \<Rightarrow> []
      | Some e \<Rightarrow> if lv \<le> Error then [''  > Error: '' @ e @ [newline]] else [])"

definition metadataLine :: "((string \<times> any) list \<Rightarrow> string option) \<Rightarrow> Options \<Rightarrow> string list" where
  "metadataLine json_Marshal options =
     (if Metadata options \<noteq> [] then
        (case json_Marshal (Metadata options) of
           None \<Rightarrow> []
         | Some js \<Rightarrow> [''  > Metadata: '' @ js @ [newline]])
      else [])"

definition tailLines ::
  "((string \<times> any) list \<Rightarrow> string option) \<Rightarrow> LogLevel \<Rightarrow> Options \<Rightarrow> string list" where
  "tailLines json_Marshal lv options =
     requestIdLine options @ errorLine lv options @ metadataLine json_Marshal options"

section \<open>The global registry (src/unnamed/part_002)\<close>

text \<open>
  Modelled from the spec: \<open>level.Parse\<close> and the constants \<open>EnvLogLevel\<close>,
  \<open>EnvLogNamespace\<close> and \<open>pkgName\<close> are absent from the sources. \<open>Parse\<close> matches
  the six names without regard to case and falls back to Info; the variables are
  \<open>LOG_LEVEL\<close> and \<open>LOG_NAMESPACE\<close>; the package is \<open>logk\<close>.
\<close>

definition toUpper :: "char \<Rightarrow> char" where
  "toUpper c = (let n = (of_char c :: nat) in if 97 \<le> n \<and> n \<le> 122 then char_of (n - 32) else c)"

definition Parse :: "string \<Rightarrow> LogLevel" where
  "Parse name =
     (let u = map toUpper name
      in if u = ''FATAL'' then Fatal
         else if u = ''ERROR'' then Error
         else if u = ''WARN'' then Warn
         else if u = ''INFO'' then Info
         else if u = ''DEBUG'' then Debug
         else if u = ''TRACE'' then Trace
         else Info)"

definition EnvLogLevel :: string where "EnvLogLevel = ''LOG_LEVEL''"
definition EnvLogNamespace :: string where "EnvLogNamespace = ''LOG_NAMESPACE''"
definition pkgName :: string where "pkgName = ''logk''"

text \<open>
  A value of the \<open>Logger\<close> interface: the address of a \<open>StdLogger\<close>, or some other
  implementation (identified by a tag); the nil interface is \<open>None\<close>. The world is the
  global slot \<open>log\<close>, the \<open>StdLogger\<close> structs allocated so far (the address of a struct
  is its index), the environment, and the invocations of \<open>Printer.Print\<close> so far. The
  mutex is not represented: the functions below run one at a time.
\<close>

datatype Logger = StdLoggerRef nat | OtherLogger nat

record World =
  log :: "Logger option"
  heap :: "StdLogger list"
  env :: "string \<rightharpoonup> string"
  calls :: "PrintCall list"

definition LookupEnv :: "World \<Rightarrow> string \<Rightarrow> string \<times> bool" where
  "LookupEnv w k = (case env w k of None \<Rightarrow> ([], False) | Some v \<Rightarrow> (v, True))"

text \<open>\<open>return &l\<close> at the end of \<open>NewStdLogger\<close>: the struct gets a fresh address.\<close>

definition allocStdLogger :: "StdLogger \<Rightarrow> World \<Rightarrow> Logger \<times> World" where
  "allocStdLogger l w = (StdLoggerRef (length (heap w)), w\<lparr>heap := heap w @ [l]\<rparr>)"

text \<open>
  \<open>Register\<close>: the panic, if any, and the world it leaves. The panic value is the
  error that \<open>fmt.Errorf("%s: logger to be registered is nil", pkgName)\<close> builds.
\<close>

definition Register :: "Logger option \<Rightarrow> World \<Rightarrow> panic option \<times> World" where
  "Register l w =
     (case l of
        None \<Rightarrow> (Some (Panic (pkgName @ '': logger to be registered is nil'')), w)
      | Some x \<Rightarrow> (None, w\<lparr>log := Some x\<rparr>))"

definition Clear :: "World \<Rightarrow> World" where
  "Clear w = w\<lparr>log := None\<rparr>"

text \<open>
  The call \<open>log.Trace(...)\<close> through the interface. What another implementation of
  \<open>Logger\<close> does is outside the repository; it leaves this world as it is.
\<close>

fun Logger_Trace :: "Logger \<Rightarrow> string \<Rightarrow> SetterFunc list \<Rightarrow> World \<Rightarrow> panic option \<times> World" where
  "Logger_Trace (StdLoggerRef a) msg args w =
     (if a < length (heap w) then
        (case StdLogger_Trace (heap w ! a) msg args (calls w) of
           Inl e \<Rightarrow> (Some e, w)
         | Inr tr \<Rightarrow> (None, w\<lparr>calls := tr\<rparr>))
      else (Some NilDereference, w))"
| "Logger_Trace (OtherLogger k) msg args w = (None, w)"

text \<open>
  \<open>Get\<close>: the test of the slot (line 61), then either the initialisation (lines 62 to
  75, \<open>Get_init\<close>) and the return of the slot, or the return of the slot alone.
\<close>

definition Get_init :: "World \<Rightarrow> panic + (Logger option \<times> World)" where
  "Get_init w =
     (let logLevelStr = fst (LookupEnv w EnvLogLevel);
          logLevel = Parse logLevelStr;
          ns = fst (LookupEnv w EnvLogNamespace);
          p = NewStdLogPrinter (Some Stdout) LstdFlags;
          (l, w1) = allocStdLogger
                      (NewStdLogger (Some (StdPrinter p)) [LevelOpt logLevel, WithNamespace ns]) w
      in case Register (Some l) w1 of
           (Some e, w2) \<Rightarrow> Inl e
         | (None, w2) \<Rightarrow>
             (case log w2 of
                None \<Rightarrow> Inl NilDereference
              | Some lg \<Rightarrow>
                  (case Logger_Trace lg ''No logger found. StdLogger initiated'' [] w2 of
                     (Some e, w3) \<Rightarrow> Inl e
                   | (None, w3) \<Rightarrow> Inr (log w3, w3))))"

definition Get :: "World \<Rightarrow> panic + (Logger option \<times> World)" where
  "Get w = (if log w = None then Get_init w else Inr (log w, w))"

text \<open>The logger that \<open>Get\<close> synthesizes from the environment.\<close>

definition defaultLogger :: "World \<Rightarrow> StdLogger" where
  "defaultLogger w =
     NewStdLogger (Some (StdPrinter (NewStdLogPrinter (Some Stdout) LstdFlags)))
       [LevelOpt (Parse (fst (LookupEnv w EnvLogLevel))),
        WithNamespace (fst (LookupEnv w EnvLogNamespace))]"

section \<open>Two callers of Get\<close>

text \<open>
  \<open>Get\<close> takes no lock: the test of the slot and what follows it are separate steps of a
  caller, and steps of other callers may come between them. A caller is where it stands
  in \<open>Get\<close>: before the test, after the test (having seen the slot empty or not), or
  returned. \<open>caller_step\<close> is one step of one caller; the initialisation is taken as one
  step, so the schedules below are among those of the program (\<open>Register\<close> locks only
  around its own assignment, which no step here interrupts).
\<close>

datatype Caller = NotStarted | SawNil | SawLogger | Returned "Logger option" | Aborted panic

fun caller_step :: "Caller \<Rightarrow> World \<Rightarrow> Caller \<times> World" where
  "caller_step NotStarted w = (if log w = None then SawNil else SawLogger, w)"
| "caller_step SawNil w =
     (case Get_init w of Inl e \<Rightarrow> (Aborted e, w) | Inr (r, w') \<Rightarrow> (Returned r, w'))"
| "caller_step SawLogger w = (Returned (log w), w)"
| "caller_step (Returned r) w = (Returned r, w)"
| "caller_step (Aborted e) w = (Aborted e, w)"

datatype Who = First | Second

text \<open>A schedule says whose step comes next.\<close>

fun run_schedule :: "Who list \<Rightarrow> Caller \<times> Caller \<times> World \<Rightarrow> Caller \<times> Caller \<times> World" where
  "run_schedule [] st = st"
| "run_schedule (First # sched) (c1, c2, w) =
     (let (c1', w') = caller_step c1 w in run_schedule sched (c1', c2, w'))"
| "run_schedule (Second # sched) (c1, c2, w) =
     (let (c2', w') = caller_step c2 w in run_schedule sched (c1, c2', w'))"

section \<open>Typed getters never convert\<close>

text \<open>
  C8. Whenever the value stored under a key is not a string (the key is missing, or
  holds nil, an int64, a time or an error), \<open>GetString\<close> returns the empty string and
  false; \<open>GetInt64\<close> and \<open>GetTime\<close> behave the same way for their types, and
  \<open>GetError\<close> returns nil when the stored value is not an error.
\<close>

theorem getters_exact_type:
  "((\<forall>s. Values o' k \<noteq> Some (VString s)) \<longrightarrow> GetString o' k = ([], False)) \<and>
   ((\<forall>i. Values o' k \<noteq> Some (VInt64 i)) \<longrightarrow> GetInt64 o' k = (0, False)) \<and>
   ((\<forall>t. Values o' k \<noteq> Some (VTime t)) \<longrightarrow> GetTime o' k = (0, False)) \<and>
   ((\<forall>e. Values o' k \<noteq> Some (VError e)) \<longrightarrow> GetError o' k = None)"
  by (auto simp: GetString_def GetInt64_def GetTime_def GetError_def
           split: option.splits any.splits)

theorem getters_exact_type_witness:
  "GetString (zeroOptions\<lparr>Values := [''n'' \<mapsto> VInt64 7]\<rparr>) ''n'' = ([], False) \<and>
   GetInt64 (zeroOptions\<lparr>Values := [''n'' \<mapsto> VString ''7'']\<rparr>) ''n'' = (0, False) \<and>
   GetTime (zeroOptions\<lparr>Values := [''n'' \<mapsto> VInt64 7]\<rparr>) ''n'' = (0, False) \<and>
   GetError (zeroOptions\<lparr>Values := [''n'' \<mapsto> VString ''boom'']\<rparr>) ''n'' = None"
  using getters_exact_type [of "zeroOptions\<lparr>Values := [''n'' \<mapsto> VInt64 7]\<rparr>" "''n''"]
        getters_exact_type [of "zeroOptions\<lparr>Values := [''n'' \<mapsto> VString ''7'']\<rparr>" "''n''"]
        getters_exact_type [of "zeroOptions\<lparr>Values := [''n'' \<mapsto> VString ''boom'']\<rparr>" "''n''"]
  by simp

section \<open>The level gate\<close>

lemma Evaluate_append: "Evaluate (args @ fs) = foldl (\<lambda>o' f. f o') (Evaluate args) fs"
  by (simp add: Evaluate_def)

lemma print_gate:
  "printer l = Some p \<Longrightarrow>
   StdLogger_print l lv msg opts tr =
     (if lv \<le> level l
      then Inr (tr @ [\<lparr>pc_printer = p, pc_namespace = namespace l, pc_level = lv, pc_msg = msg,
                        pc_options = injectContext l opts\<rparr>])
      else Inr tr)"
  by (simp add: StdLogger_print_def Let_def)

lemma NewStdLogger_level: "level (NewStdLogger p args) = Level (Evaluate args)"
  by (simp add: NewStdLogger_def Let_def zeroStdLogger_def split: option.splits)

lemma NewStdLogger_namespace:
  "namespace (NewStdLogger p args) = fst (GetString (Evaluate args) NamespaceKey)"
  by (simp add: NewStdLogger_def Let_def zeroStdLogger_def split: option.splits)

lemma NewStdLogger_printer: "\<exists>q. printer (NewStdLogger p args) = Some q"
  by (simp add: NewStdLogger_def Let_def zeroStdLogger_def split: option.splits)

lemma NewChild_printer: "\<exists>q. printer (NewChild l args) = Some q"
  using NewStdLogger_printer by (simp add: NewChild_def Let_def)

text \<open>
  C1. On a logger with threshold \<open>level l\<close> and a printer (every logger that
  \<open>NewStdLogger\<close> or \<open>NewChild\<close> builds has one), each of the twelve methods
  invokes \<open>Print\<close> exactly once, with the logger's namespace, the method's level and
  the message, when the method's level is at most the threshold; otherwise it returns
  with no invocation at all.
\<close>

theorem level_gate:
  assumes "printer l = Some p"
  shows
"StdLogger_Fatal l msg args tr =
     (if Fatal \<le> level l
      then Inr (tr @ [\<lparr>pc_printer = p, pc_namespace = namespace l, pc_level = Fatal, pc_msg = msg,
                        pc_options = injectContext l (Evaluate args)\<rparr>])
      else Inr tr) \<and>
   StdLogger_Fatalf l msg fargs tr =
     (if Fatal \<le> level l
      then Inr (tr @ [\<lparr>pc_printer = p, pc_namespace = namespace l, pc_level = Fatal, pc_msg = msg,
                        pc_options = injectContext l (NewFormatOptions fargs)\<rparr>])
      else Inr tr) \<and>
   StdLogger_Error l msg args tr =
     (if Error \<le> level l
      then Inr (tr @ [\<lparr>pc_printer = p, pc_namespace = namespace l, pc_level = Error, pc_msg = msg,
                        pc_options = injectContext l (Evaluate args)\<rparr>])
      else Inr tr) \<and>
   StdLogger_Errorf l msg fargs tr =
     (if Error \<le> level l
      then Inr (tr @ [\<lparr>pc_printer = p, pc_namespace = namespace l, pc_level = Error, pc_msg = msg,
                        pc_options = injectContext l (NewFormatOptions fargs)\<rparr>])
      else Inr tr) \<and>
   StdLogger_Warn l msg args tr =
     (if Warn \<le> level l
      then Inr (tr @ [\<lparr>pc_printer = p, pc_namespace = namespace l, pc_level = Warn, pc_msg = msg,
                        pc_options = injectContext l (Evaluate args)\<rparr>])
      else Inr tr) \<and>
   StdLogger_Warnf l msg fargs tr =
     (if Warn \<le> level l
      then Inr (tr @ [\<lparr>pc_printer = p, pc_namespace = namespace l, pc_level = Warn, pc_msg = msg,
                        pc_options = injectContext l (NewFormatOptions fargs)\<rparr>])
      else Inr tr) \<and>
   StdLogger_Info l msg args tr =
     (if Info \<le> level l
      then Inr (tr @ [\<lparr>pc_printer = p, pc_namespace = namespace l, pc_level = Info, pc_msg = msg,
                        pc_options = injectContext l (Evaluate args)\<rparr>])
      else Inr tr) \<and>
   StdLogger_Infof l msg fargs tr =
     (if Info \<le> level l
      then Inr (tr @ [\<lparr>pc_printer = p, pc_namespace = namespace l, pc_level = Info, pc_msg = msg,
                        pc_options = injectContext l (NewFormatOptions fargs)\<rparr>])
      else Inr tr) \<and>
   StdLogger_Debug l msg args tr =
     (if Debug \<le> level l
      then Inr (tr @ [\<lparr>pc_printer = p, pc_namespace = namespace l, pc_level = Debug, pc_msg = msg,
                        pc_options = injectContext l (Evaluate args)\<rparr>])
      else Inr tr) \<and>
   StdLogger_Debugf l msg fargs tr =
     (if Debug \<le> level l
      then Inr (tr @ [\<lparr>pc_printer = p, pc_namespace = namespace l, pc_level = Debug, pc_msg = msg,
                        pc_options = injectContext l (NewFormatOptions fargs)\<rparr>])
      else Inr tr) \<and>
   StdLogger_Trace l msg args tr =
     (if Trace \<le> level l
      then Inr (tr @ [\<lparr>pc_printer = p, pc_namespace = namespace l, pc_level = Trace, pc_msg = msg,
                        pc_options = injectContext l (Evaluate args)\<rparr>])
      else Inr tr) \<and>
   StdLogger_Tracef l msg fargs tr =
     (if Trace \<le> level l
      then Inr (tr @ [\<lparr>pc_printer = p, pc_namespace = namespace l, pc_level = Trace, pc_msg = msg,
                        pc_options = injectContext l (NewFormatOptions fargs)\<rparr>])
      else Inr tr)"
  using assms by (simp add: method_defs print_gate)

theorem level_gate_witness:
  "printer \<lparr>level = Info, printer = Some (OtherPrinter 0), namespace = ''api'', ctx = None\<rparr>
     = Some (OtherPrinter 0) \<and>
   StdLogger_Debug \<lparr>level = Info, printer = Some (OtherPrinter 0), namespace = ''api'', ctx = None\<rparr>
     ''d'' [] [] = Inr [] \<and>
   StdLogger_Warn \<lparr>level = Info, printer = Some (OtherPrinter 0), namespace = ''api'', ctx = None\<rparr>
     ''w'' [] [] =
     Inr [\<lparr>pc_printer = OtherPrinter 0, pc_namespace = ''api'', pc_level = Warn, pc_msg = ''w'',
           pc_options = zeroOptions\<rparr>] \<and>
   StdLogger_Infof \<lparr>level = Info, printer = Some (OtherPrinter 0), namespace = ''api'', ctx = None\<rparr>
     ''i'' [] [] =
     Inr [\<lparr>pc_printer = OtherPrinter 0, pc_namespace = ''api'', pc_level = Info, pc_msg = ''i'',
           pc_options = zeroOptions\<rparr>]"
  using level_gate [of "\<lparr>level = Info, printer = Some (OtherPrinter 0), namespace = ''api'', ctx = None\<rparr>"
                       "OtherPrinter 0" "''d''" "[]" "[]" "[]"]
        level_gate [of "\<lparr>level = Info, printer = Some (OtherPrinter 0), namespace = ''api'', ctx = None\<rparr>"
                       "OtherPrinter 0" "''w''" "[]" "[]" "[]"]
        level_gate [of "\<lparr>level = Info, printer = Some (OtherPrinter 0), namespace = ''api'', ctx = None\<rparr>"
                       "OtherPrinter 0" "''i''" "[]" "[]" "[]"]
  by (simp add: level_defs injectContext_def Evaluate_def NewFormatOptions_def zeroOptions_def)

section \<open>Child loggers\<close>

text \<open>
  C3. Let \<open>ov\<close> be the namespace the setters carry (empty when they carry none, or a
  value that is not a string). When \<open>ov\<close> is empty and the parent has a namespace, the
  child has the parent's namespace; when \<open>ov\<close> is not empty, the child's namespace is
  \<open>ov\<close>. The same holds one generation down: a grandchild made without an override has
  the child's namespace, one made with an override has the override.
\<close>

theorem child_namespace:
  "(fst (GetString (Evaluate args) NamespaceKey) = [] \<and> namespace l \<noteq> []
      \<longrightarrow> namespace (NewChild l args) = namespace l) \<and>
   (fst (GetString (Evaluate args) NamespaceKey) \<noteq> []
      \<longrightarrow> namespace (NewChild l args) = fst (GetString (Evaluate args) NamespaceKey)) \<and>
   (fst (GetString (Evaluate args') NamespaceKey) = [] \<and> namespace (NewChild l args) \<noteq> []
      \<longrightarrow> namespace (NewChild (NewChild l args) args') = namespace (NewChild l args)) \<and>
   (fst (GetString (Evaluate args') NamespaceKey) \<noteq> []
      \<longrightarrow> namespace (NewChild (NewChild l args) args')
            = fst (GetString (Evaluate args') NamespaceKey))"
  by (simp add: NewChild_def Let_def NewStdLogger_namespace Evaluate_append LevelOpt_def
        WithNamespace_def GetString_def)

theorem child_namespace_witness:
  "namespace (NewChild (NewStdLogger None [WithNamespace ''api'']) []) = ''api'' \<and>
   namespace (NewChild (NewStdLogger None [WithNamespace ''api'']) [WithNamespace ''users''])
     = ''users'' \<and>
   namespace (NewChild (NewChild (NewStdLogger None [WithNamespace ''api''])
                                 [WithNamespace ''users'']) []) = ''users''"
  using child_namespace [of "[]" "NewStdLogger None [WithNamespace ''api'']" "[]"]
        child_namespace [of "[WithNamespace ''users'']" "NewStdLogger None [WithNamespace ''api'']" "[]"]
  by (simp add: NewStdLogger_namespace Evaluate_def WithNamespace_def GetString_def
        zeroOptions_def NamespaceKey_def)

text \<open>
  C4. The child's threshold is the parent's, whatever the setters are; a \<open>Level\<close>
  setter among them, first or last, changes nothing.
\<close>

theorem child_level:
  "level (NewChild l args) = level l \<and>
   level (NewChild l (LevelOpt lv # args)) = level l \<and>
   level (NewChild l (args @ [LevelOpt lv])) = level l"
  by (simp add: NewChild_def Let_def NewStdLogger_level Evaluate_append LevelOpt_def)

theorem child_level_witness:
  "level (NewChild (NewStdLogger None [LevelOpt Debug]) []) = Debug \<and>
   level (NewChild (NewStdLogger None [LevelOpt Debug]) [LevelOpt Trace]) = Debug"
  using child_level [of "NewStdLogger None [LevelOpt Debug]" "[]" Trace]
  by (simp add: NewStdLogger_level Evaluate_def LevelOpt_def)

section \<open>The default threshold\<close>

lemma Evaluate_Level_keep:
  "\<forall>f\<in>set args. \<forall>o'. Level (f o') = Level o' \<Longrightarrow> Level (Evaluate args) = 0"
  by (induction args rule: rev_induct) (simp_all add: Evaluate_def zeroOptions_def)

text \<open>
  C10. When no setter touches the level, the logger that \<open>NewStdLogger\<close> builds has
  threshold Fatal (ordinal 0): Error, Warn, Info, Debug and Trace, plain or formatted,
  return without invoking the printer, and Fatal and Fatalf invoke it once.
\<close>

theorem default_threshold_fatal:
  assumes "\<forall>f\<in>set args. \<forall>o'. Level (f o') = Level o'"
  shows
  "level (NewStdLogger p args) = Fatal \<and>
   StdLogger_Error (NewStdLogger p args) msg a tr = Inr tr \<and>
   StdLogger_Errorf (NewStdLogger p args) msg fa tr = Inr tr \<and>
   StdLogger_Warn (NewStdLogger p args) msg a tr = Inr tr \<and>
   StdLogger_Warnf (NewStdLogger p args) msg fa tr = Inr tr \<and>
   StdLogger_Info (NewStdLogger p args) msg a tr = Inr tr \<and>
   StdLogger_Infof (NewStdLogger p args) msg fa tr = Inr tr \<and>
   StdLogger_Debug (NewStdLogger p args) msg a tr = Inr tr \<and>
   StdLogger_Debugf (NewStdLogger p args) msg fa tr = Inr tr \<and>
   StdLogger_Trace (NewStdLogger p args) msg a tr = Inr tr \<and>
   StdLogger_Tracef (NewStdLogger p args) msg fa tr = Inr tr \<and>
   (\<exists>c. StdLogger_Fatal (NewStdLogger p args) msg a tr = Inr (tr @ [c]) \<and> pc_level c = Fatal) \<and>
   (\<exists>c. StdLogger_Fatalf (NewStdLogger p args) msg fa tr = Inr (tr @ [c]) \<and> pc_level c = Fatal)"
proof -
  have lv: "level (NewStdLogger p args) = 0"
    using assms by (simp add: NewStdLogger_level Evaluate_Level_keep)
  obtain q where q: "printer (NewStdLogger p args) = Some q"
    using NewStdLogger_printer by blast
  show ?thesis
    by (simp add: method_defs print_gate [OF q] lv level_defs)
qed

theorem default_threshold_fatal_witness:
  "level (NewStdLogger None [WithNamespace ''api'']) = Fatal \<and>
   StdLogger_Error (NewStdLogger None [WithNamespace ''api'']) ''boom'' [] [] = Inr [] \<and>
   StdLogger_Tracef (NewStdLogger None [WithNamespace ''api'']) ''t'' [] [] = Inr []"
proof -
  have h: "\<forall>f\<in>set [WithNamespace ''api'']. \<forall>o'. Level (f o') = Level o'"
    by (simp add: WithNamespace_def)
  show ?thesis
    using default_threshold_fatal [OF h, of None "''boom''" "[]" "[]" "[]"]
          default_threshold_fatal [OF h, of None "''t''" "[]" "[]" "[]"]
    by simp
qed

section \<open>What the bundled printer writes\<close>





lemma fmt_basic_Sprintf: "fmt_basic Sprintf"
  by (simp add: fmt_basic_def Sprintf_def emit_def)

lemma levelPrefix_eq: "fmt_basic fm \<Longrightarrow> levelPrefix fm lv ns = Some (prefixText lv ns)"
  by (simp add: levelPrefix_def prefixText_def Let_def fmt_basic_def)

lemma printMessage_plain:
  "fmt_basic fm \<Longrightarrow> FmtArgs options = [] \<Longrightarrow>
   printMessage fm prefix msg options w = Some (w @ [prefix @ msg @ [newline]])"
  by (simp add: printMessage_def log_Printf_def fmt_basic_def Output_def)


lemma printMessage_entry:
  "printMessage fm prefix msg options w = Some w1 \<Longrightarrow> \<exists>h. w1 = w @ [h]"
  by (auto simp: printMessage_def log_Printf_def Let_def split: if_splits)

lemma printRequestId_eq:
  "fmt_basic fm \<Longrightarrow> printRequestId fm options w = Some (w @ requestIdLine options)"
  by (simp add: printRequestId_def requestIdLine_def Let_def log_Printf_def fmt_basic_def
        Output_def)

lemma printError_eq:
  "fmt_basic fm \<Longrightarrow> printError fm lv options w = Some (w @ errorLine lv options)"
  by (simp add: printError_def errorLine_def log_Printf_def fmt_basic_def Output_def
        split: option.splits)

lemma printMetadata_eq:
  "fmt_basic fm \<Longrightarrow> printMetadata fm m options w = Some (w @ metadataLine m options)"
  by (simp add: printMetadata_def metadataLine_def Let_def log_Printf_def fmt_basic_def
        Output_def split: option.splits)

lemma Print_fmt_eq:
  "fmt_basic fm \<Longrightarrow>
   stdLogPrinter_Print_fmt fm m ns lv msg options w =
     map_option (\<lambda>w1. w1 @ tailLines m lv options)
       (printMessage fm (prefixText lv ns) msg options w)"
  by (cases "printMessage fm (prefixText lv ns) msg options w")
     (simp_all add: stdLogPrinter_Print_fmt_def levelPrefix_eq printRequestId_eq printError_eq
        printMetadata_eq tailLines_def)

lemma Print_eq:
  "stdLogPrinter_Print m ns lv msg options w =
     map_option (\<lambda>w1. w1 @ tailLines m lv options)
       (printMessage Sprintf (prefixText lv ns) msg options w)"
  by (simp add: stdLogPrinter_Print_def Print_fmt_eq [OF fmt_basic_Sprintf])

lemma Print_shape:
  "stdLogPrinter_Print m ns lv msg options w = Some w' \<Longrightarrow>
   \<exists>h. w' = w @ h # tailLines m lv options"
  by (auto simp: Print_eq dest: printMessage_entry)

lemma Print_defined:
  "FmtArgs options = [] \<Longrightarrow> \<exists>w'. stdLogPrinter_Print m ns lv msg options w = Some w'"
  by (simp add: Print_eq printMessage_plain [OF fmt_basic_Sprintf])

lemma requestIdLine_not_error: "s \<in> set (requestIdLine options) \<Longrightarrow> take 11 s \<noteq> ''  > Error: ''"
  by (cases "GetRequestId (Context options) = []") (simp_all add: requestIdLine_def take_Cons')

lemma metadataLine_not_error: "s \<in> set (metadataLine m options) \<Longrightarrow> take 11 s \<noteq> ''  > Error: ''"
  by (cases "Metadata options = []"; cases "m (Metadata options)")
     (simp_all add: metadataLine_def take_Cons')

lemma errorLine_eq:
  "errorLine lv options =
     (if (\<exists>e. Values options ErrorKey = Some (VError e)) \<and> lv \<le> Error
      then [''  > Error: '' @ the (GetError options ErrorKey) @ [newline]] else [])"
  by (auto simp: errorLine_def GetError_def split: option.splits any.splits)

lemma tailLines_error:
  "(\<exists>s \<in> set (tailLines m lv options). take 11 s = ''  > Error: '') \<longleftrightarrow>
   (\<exists>e. Values options ErrorKey = Some (VError e)) \<and> lv \<le> Error"
proof (cases "(\<exists>e. Values options ErrorKey = Some (VError e)) \<and> lv \<le> Error")
  case True
  then have "''  > Error: '' @ the (GetError options ErrorKey) @ [newline] \<in> set (tailLines m lv options)"
    by (simp add: tailLines_def errorLine_eq)
  moreover have "take 11 (''  > Error: '' @ the (GetError options ErrorKey) @ [newline]) = ''  > Error: ''"
    by (simp add: take_Cons')
  ultimately show ?thesis using True by blast
next
  case False
  then have "errorLine lv options = []" by (simp add: errorLine_eq)
  then have "set (tailLines m lv options) = set (requestIdLine options) \<union> set (metadataLine m options)"
    by (simp add: tailLines_def)
  then show ?thesis
    using False requestIdLine_not_error metadataLine_not_error by blast
qed

text \<open>
  C7. Whenever the bundled printer renders a record, an entry that begins with
  \<open>  > Error: \<close> follows the message entry exactly when an error value is stored under
  the error key and the level is Error or Fatal (ordinal at most that of Error); the
  entry then is that text, the error's message and a newline. At level Info there is
  no such entry. A record without format operands is always rendered.
\<close>

theorem error_line:
  "(FmtArgs options = [] \<longrightarrow> (\<exists>w'. stdLogPrinter_Print m ns lv msg options w = Some w')) \<and>
   (\<forall>w'. stdLogPrinter_Print m ns lv msg options w = Some w' \<longrightarrow>
      ((\<exists>s \<in> set (tl (drop (length w) w')). take 11 s = ''  > Error: '') \<longleftrightarrow>
         (\<exists>e. Values options ErrorKey = Some (VError e)) \<and> lv \<le> Error) \<and>
      (\<forall>e. Values options ErrorKey = Some (VError e) \<and> lv \<le> Error \<longrightarrow>
         ''  > Error: '' @ e @ [newline] \<in> set (tl (drop (length w) w'))) \<and>
      (lv = Info \<longrightarrow> \<not> (\<exists>s \<in> set (tl (drop (length w) w')). take 11 s = ''  > Error: '')))"
proof (intro conjI allI impI)
  assume "FmtArgs options = []"
  then show "\<exists>w'. stdLogPrinter_Print m ns lv msg options w = Some w'"
    by (rule Print_defined)
next
  fix w' assume "stdLogPrinter_Print m ns lv msg options w = Some w'"
  then obtain h where w': "w' = w @ h # tailLines m lv options"
    using Print_shape by blast
  then have tl: "tl (drop (length w) w') = tailLines m lv options" by simp
  show "(\<exists>s \<in> set (tl (drop (length w) w')). take 11 s = ''  > Error: '') \<longleftrightarrow>
         (\<exists>e. Values options ErrorKey = Some (VError e)) \<and> lv \<le> Error"
    unfolding tl by (rule tailLines_error)
  { fix e assume "Values options ErrorKey = Some (VError e) \<and> lv \<le> Error"
    then show "''  > Error: '' @ e @ [newline] \<in> set (tl (drop (length w) w'))"
      unfolding tl by (simp add: tailLines_def errorLine_def GetError_def) }
  { assume "lv = Info"
    then show "\<not> (\<exists>s \<in> set (tl (drop (length w) w')). take 11 s = ''  > Error: '')"
      unfolding tl tailLines_error by (simp add: level_defs) }
qed

theorem error_line_witness:
  "stdLogPrinter_Print Map.empty ''api'' Error ''boom'' (ErrorOpt (VError ''bad'') zeroOptions) []
     = Some [''[ERROR] > (api) boom'' @ [newline], ''  > Error: bad'' @ [newline]] \<and>
   stdLogPrinter_Print Map.empty ''api'' Info ''boom'' (ErrorOpt (VError ''bad'') zeroOptions) []
     = Some [''[INFO]  > (api) boom'' @ [newline]] \<and>
   (\<exists>s \<in> set (tl (drop (length ([] :: string list))
        [''[ERROR] > (api) boom'' @ [newline], ''  > Error: bad'' @ [newline]])).
      take 11 s = ''  > Error: '') \<and>
   \<not> (\<exists>s \<in> set (tl (drop (length ([] :: string list)) [''[INFO]  > (api) boom'' @ [newline]])).
      take 11 s = ''  > Error: '')"
proof -
  have e: "stdLogPrinter_Print Map.empty ''api'' Error ''boom'' (ErrorOpt (VError ''bad'') zeroOptions) []
     = Some [''[ERROR] > (api) boom'' @ [newline], ''  > Error: bad'' @ [newline]]"
    by code_simp
  have i: "stdLogPrinter_Print Map.empty ''api'' Info ''boom'' (ErrorOpt (VError ''bad'') zeroOptions) []
     = Some [''[INFO]  > (api) boom'' @ [newline]]"
    by code_simp
  have v: "Values (ErrorOpt (VError ''bad'') zeroOptions) ErrorKey = Some (VError ''bad'')"
    by (simp add: ErrorOpt_def)
  have le: "Error \<le> Error" "\<not> Info \<le> Error"
    by (simp_all add: level_defs)
  show ?thesis
    using e i v le
      error_line [of "ErrorOpt (VError ''bad'') zeroOptions" Map.empty "''api''" Error "''boom''" "[]"]
      error_line [of "ErrorOpt (VError ''bad'') zeroOptions" Map.empty "''api''" Info "''boom''" "[]"]
    by auto
qed

section \<open>The formatted methods and the direct call\<close>












text \<open>Two more inputs on which the formatted variant and the direct call differ.\<close>

lemma formatted_namespace_percent:
  "stdLogPrinter_Print Map.empty ''%d'' Error ''n=%d'' (NewFormatOptions [VInt64 7]) []
     = Some [''[ERROR] > (7) n=%!d(MISSING)'' @ [newline]] \<and>
   Sprintf ''n=%d'' [VInt64 7] = Some ''n=7'' \<and>
   stdLogPrinter_Print Map.empty ''%d'' Error ''n=7'' zeroOptions []
     = Some [''[ERROR] > (%d) n=7'' @ [newline]]"
  by code_simp

lemma formatted_extra_operand:
  "stdLogPrinter_Print Map.empty [] Error ''done'' (NewFormatOptions [VInt64 7]) []
     = Some [''[ERROR] > done'' @ [newline] @ ''%!(EXTRA int64=7)'' @ [newline]] \<and>
   Sprintf ''done'' [VInt64 7] = Some ''done%!(EXTRA int64=7)'' \<and>
   stdLogPrinter_Print Map.empty [] Error ''done%!(EXTRA int64=7)'' zeroOptions []
     = Some [''[ERROR] > done%!(EXTRA int64=7)'' @ [newline]]"
  by code_simp

section \<open>Register, Get and Clear\<close>

lemma Get_registered: "log w = Some l \<Longrightarrow> Get w = Inr (Some l, w)"
  by (simp add: Get_def)

lemma defaultLogger_printer:
  "printer (defaultLogger w) = Some (StdPrinter (NewStdLogPrinter (Some Stdout) LstdFlags))"
  by (simp add: defaultLogger_def NewStdLogger_def Let_def zeroStdLogger_def)

lemma defaultLogger_level: "level (defaultLogger w) = Parse (fst (LookupEnv w EnvLogLevel))"
  by (simp add: defaultLogger_def NewStdLogger_level Evaluate_def LevelOpt_def WithNamespace_def)

lemma defaultLogger_namespace: "namespace (defaultLogger w) = fst (LookupEnv w EnvLogNamespace)"
  by (simp add: defaultLogger_def NewStdLogger_namespace Evaluate_def LevelOpt_def
        WithNamespace_def GetString_def)

lemma Get_init_eq:
  "Get_init w = Inr (Some (StdLoggerRef (length (heap w))),
                w\<lparr>heap := heap w @ [defaultLogger w],
                  log := Some (StdLoggerRef (length (heap w))),
                  calls := (if Trace \<le> level (defaultLogger w)
                            then calls w @
                                 [\<lparr>pc_printer = StdPrinter (NewStdLogPrinter (Some Stdout) LstdFlags),
                                   pc_namespace = namespace (defaultLogger w), pc_level = Trace,
                                   pc_msg = ''No logger found. StdLogger initiated'',
                                   pc_options = injectContext (defaultLogger w) (Evaluate [])\<rparr>]
                            else calls w)\<rparr>)"
  by (simp add: Get_init_def Let_def allocStdLogger_def Register_def defaultLogger_def [symmetric]
        StdLogger_Trace_def print_gate [OF defaultLogger_printer])

lemma Get_empty:
  "log w = None \<Longrightarrow>
   Get w = Inr (Some (StdLoggerRef (length (heap w))),
                w\<lparr>heap := heap w @ [defaultLogger w],
                  log := Some (StdLoggerRef (length (heap w))),
                  calls := (if Trace \<le> level (defaultLogger w)
                            then calls w @
                                 [\<lparr>pc_printer = StdPrinter (NewStdLogPrinter (Some Stdout) LstdFlags),
                                   pc_namespace = namespace (defaultLogger w), pc_level = Trace,
                                   pc_msg = ''No logger found. StdLogger initiated'',
                                   pc_options = injectContext (defaultLogger w) (Evaluate [])\<rparr>]
                            else calls w)\<rparr>)"
  by (simp add: Get_def Get_init_eq)

lemma defaultLogger_Clear: "defaultLogger (Clear w) = defaultLogger w"
  by (simp add: defaultLogger_def Clear_def LookupEnv_def)

text \<open>
  C5. After \<open>Register(l)\<close> with a non-nil \<open>l\<close>, \<open>Get\<close> returns \<open>l\<close> and leaves the
  world as it is. After \<open>Clear\<close>, \<open>Get\<close> returns the address of a newly allocated
  standard logger, registers it, and that logger has the level parsed from
  \<open>LOG_LEVEL\<close>, the namespace of \<open>LOG_NAMESPACE\<close> and the bundled printer; it is not
  the logger registered before, be that another implementation or a standard logger
  allocated earlier.
\<close>

theorem register_get_clear:
  "Get (snd (Register (Some l) w)) = Inr (Some l, snd (Register (Some l) w)) \<and>
   (\<exists>w'. Get (Clear w) = Inr (Some (StdLoggerRef (length (heap w))), w') \<and>
      log w' = Some (StdLoggerRef (length (heap w))) \<and>
      heap w' = heap w @ [defaultLogger w] \<and>
      level (defaultLogger w) = Parse (fst (LookupEnv w EnvLogLevel)) \<and>
      namespace (defaultLogger w) = fst (LookupEnv w EnvLogNamespace) \<and>
      printer (defaultLogger w) = Some (StdPrinter (NewStdLogPrinter (Some Stdout) LstdFlags)) \<and>
      (\<forall>prev. log w = Some prev \<and> (\<forall>a. prev = StdLoggerRef a \<longrightarrow> a < length (heap w))
         \<longrightarrow> StdLoggerRef (length (heap w)) \<noteq> prev))"
proof (intro conjI)
  show "Get (snd (Register (Some l) w)) = Inr (Some l, snd (Register (Some l) w))"
    by (simp add: Register_def Get_registered)
  have c: "log (Clear w) = None" "heap (Clear w) = heap w"
    by (simp_all add: Clear_def)
  show "\<exists>w'. Get (Clear w) = Inr (Some (StdLoggerRef (length (heap w))), w') \<and>
      log w' = Some (StdLoggerRef (length (heap w))) \<and>
      heap w' = heap w @ [defaultLogger w] \<and>
      level (defaultLogger w) = Parse (fst (LookupEnv w EnvLogLevel)) \<and>
      namespace (defaultLogger w) = fst (LookupEnv w EnvLogNamespace) \<and>
      printer (defaultLogger w) = Some (StdPrinter (NewStdLogPrinter (Some Stdout) LstdFlags)) \<and>
      (\<forall>prev. log w = Some prev \<and> (\<forall>a. prev = StdLoggerRef a \<longrightarrow> a < length (heap w))
         \<longrightarrow> StdLoggerRef (length (heap w)) \<noteq> prev)"
    using Get_empty [OF c(1)]
    by (auto simp: c(2) defaultLogger_Clear defaultLogger_level defaultLogger_namespace
          defaultLogger_printer)
qed

theorem register_get_clear_witness:
  "Get (snd (Register (Some (OtherLogger 7))
          \<lparr>log = None, heap = [], env = [''LOG_LEVEL'' \<mapsto> ''debug''], calls = []\<rparr>))
     = Inr (Some (OtherLogger 7),
            \<lparr>log = Some (OtherLogger 7), heap = [], env = [''LOG_LEVEL'' \<mapsto> ''debug''],
              calls = []\<rparr>) \<and>
   (\<exists>w'. Get (Clear \<lparr>log = Some (StdLoggerRef 0), heap = [zeroStdLogger],
                     env = [''LOG_LEVEL'' \<mapsto> ''debug''], calls = []\<rparr>)
            = Inr (Some (StdLoggerRef 1), w') \<and>
          heap w' = [zeroStdLogger,
                     \<lparr>level = Debug,
                       printer = Some (StdPrinter (NewStdLogPrinter (Some Stdout) LstdFlags)),
                       namespace = [], ctx = None\<rparr>]) \<and>
   StdLoggerRef 1 \<noteq> StdLoggerRef 0"
proof -
  let ?w = "\<lparr>log = Some (StdLoggerRef 0), heap = [zeroStdLogger],
             env = [''LOG_LEVEL'' \<mapsto> ''debug''], calls = []\<rparr>"
  have d: "defaultLogger ?w =
             \<lparr>level = Debug,
               printer = Some (StdPrinter (NewStdLogPrinter (Some Stdout) LstdFlags)),
               namespace = [], ctx = None\<rparr>"
    by code_simp
  show ?thesis
    using register_get_clear [of "OtherLogger 7"
            "\<lparr>log = None, heap = [], env = [''LOG_LEVEL'' \<mapsto> ''debug''], calls = []\<rparr>"]
          register_get_clear [of "OtherLogger 7" ?w]
    by (auto simp: Register_def d)
qed

text \<open>
  C6. \<open>Register\<close> panics exactly when the logger is nil; the panic carries the message
  and leaves the world, the slot included, as it was. A logger that is not nil takes
  the slot and nothing else changes.
\<close>

theorem register_nil_panics:
  "(fst (Register l w) \<noteq> None \<longleftrightarrow> l = None) \<and>
   (l = None \<longrightarrow>
      Register l w = (Some (Panic (pkgName @ '': logger to be registered is nil'')), w)) \<and>
   (\<forall>x. l = Some x \<longrightarrow> Register l w = (None, w\<lparr>log := Some x\<rparr>))"
  by (cases l) (simp_all add: Register_def)

theorem register_nil_panics_witness:
  "Register None \<lparr>log = Some (OtherLogger 1), heap = [], env = Map.empty, calls = []\<rparr>
     = (Some (Panic ''logk: logger to be registered is nil''),
        \<lparr>log = Some (OtherLogger 1), heap = [], env = Map.empty, calls = []\<rparr>) \<and>
   Register (Some (OtherLogger 2))
       \<lparr>log = Some (OtherLogger 1), heap = [], env = Map.empty, calls = []\<rparr>
     = (None, \<lparr>log = Some (OtherLogger 2), heap = [], env = Map.empty, calls = []\<rparr>)"
  using register_nil_panics [of None
          "\<lparr>log = Some (OtherLogger 1), heap = [], env = Map.empty, calls = []\<rparr>"]
        register_nil_panics [of "Some (OtherLogger 2)"
          "\<lparr>log = Some (OtherLogger 1), heap = [], env = Map.empty, calls = []\<rparr>"]
  by (simp add: pkgName_def)

section \<open>Two callers of Get on an empty registry\<close>

lemma caller_alone:
  "run_schedule [First, First] (NotStarted, c2, w) =
     (case Get w of Inl e \<Rightarrow> (Aborted e, c2, w) | Inr (r, w') \<Rightarrow> (Returned r, c2, w'))"
  by (simp add: Get_def Get_init_eq)

lemma callers_in_turn:
  "log w = None \<Longrightarrow>
   \<exists>w'. run_schedule [First, First, Second, Second] (NotStarted, NotStarted, w) =
          (Returned (Some (StdLoggerRef (length (heap w)))),
           Returned (Some (StdLoggerRef (length (heap w)))), w') \<and>
         heap w' = heap w @ [defaultLogger w]"
  by (simp add: Get_init_eq)

lemma callers_interleaved:
  "log w = None \<Longrightarrow>
   \<exists>w'. run_schedule [First, Second, First, Second] (NotStarted, NotStarted, w) =
          (Returned (Some (StdLoggerRef (length (heap w)))),
           Returned (Some (StdLoggerRef (Suc (length (heap w))))), w') \<and>
         heap w' = heap w @ [defaultLogger w, defaultLogger w] \<and>
         log w' = Some (StdLoggerRef (Suc (length (heap w)))) \<and>
         map pc_msg (calls w') =
           map pc_msg (calls w) @
           (if Trace \<le> level (defaultLogger w)
            then [''No logger found. StdLogger initiated'', ''No logger found. StdLogger initiated'']
            else [])"
  by (simp add: Get_init_eq defaultLogger_def LookupEnv_def)

text \<open>
  C9. Two callers of \<open>Get\<close> on an empty registry with \<open>LOG_LEVEL=trace\<close>, the second
  testing the slot before the first has initialised it: each of them initialises. The
  first returns the logger at address 0 and the second the logger at address 1, two
  loggers are allocated, the slot holds the second, and the bootstrap message is
  printed twice. The callers do not observe one logger.
\<close>

theorem concurrent_get_two_loggers:
  "fst (run_schedule [First, Second, First, Second]
          (NotStarted, NotStarted,
           \<lparr>log = None, heap = [], env = [''LOG_LEVEL'' \<mapsto> ''trace''], calls = []\<rparr>))
     = Returned (Some (StdLoggerRef 0)) \<and>
   fst (snd (run_schedule [First, Second, First, Second]
          (NotStarted, NotStarted,
           \<lparr>log = None, heap = [], env = [''LOG_LEVEL'' \<mapsto> ''trace''], calls = []\<rparr>)))
     = Returned (Some (StdLoggerRef 1)) \<and>
   length (heap (snd (snd (run_schedule [First, Second, First, Second]
          (NotStarted, NotStarted,
           \<lparr>log = None, heap = [], env = [''LOG_LEVEL'' \<mapsto> ''trace''], calls = []\<rparr>))))) = 2 \<and>
   log (snd (snd (run_schedule [First, Second, First, Second]
          (NotStarted, NotStarted,
           \<lparr>log = None, heap = [], env = [''LOG_LEVEL'' \<mapsto> ''trace''], calls = []\<rparr>))))
     = Some (StdLoggerRef 1) \<and>
   map pc_msg (calls (snd (snd (run_schedule [First, Second, First, Second]
          (NotStarted, NotStarted,
           \<lparr>log = None, heap = [], env = [''LOG_LEVEL'' \<mapsto> ''trace''], calls = []\<rparr>)))))
     = [''No logger found. StdLogger initiated'', ''No logger found. StdLogger initiated'']"
proof -
  let ?w = "\<lparr>log = None, heap = [], env = [''LOG_LEVEL'' \<mapsto> ''trace''], calls = []\<rparr>"
  have lv: "level (defaultLogger ?w) = Trace"
    by code_simp
  have "log ?w = None" by simp
  from callers_interleaved [OF this] lv show ?thesis
    by auto
qed

end
